theory Spec2Isabelle
  imports Complex_Main "HOL-Library.Sublist" "HOL-Library.Log_Nat"
begin

section \<open>Python values used by \<open>robusta_krr/core/abstract/strategies.py\<close>\<close>

subsection \<open>Strings\<close>

text \<open>
  A Python \<open>str\<close> is a sequence of code points. The model keeps the code points
  0..255 (ASCII and Latin-1), one \<^typ>\<open>char\<close> each. On these, \<open>str.lower()\<close> maps
  \<open>A..Z\<close> (65..90) and the Latin-1 capitals 192..222 except the multiplication sign 215
  to the code point 32 above, and leaves every other code point alone.
\<close>

definition lower_char :: "char \<Rightarrow> char" where
  "lower_char c =
     (let n = (of_char c :: nat)
      in if (65 \<le> n \<and> n \<le> 90) \<or> (192 \<le> n \<and> n \<le> 222 \<and> n \<noteq> 215)
         then char_of (n + 32) else c)"

definition lower :: "string \<Rightarrow> string" where
  "lower s = map lower_char s"

text \<open>\<open>sep.join(xs)\<close>\<close>

fun join :: "string \<Rightarrow> string list \<Rightarrow> string" where
  "join sep [] = []"
| "join sep [x] = x"
| "join sep (x # y # ys) = x @ sep @ join sep (y # ys)"

subsection \<open>Exceptions\<close>

datatype exn =
    ValueError string
  | KeyError string
  | IndexError string
  | AttributeError string
  | OverflowError
  | ValidationError "(string \<times> string) list"

subsection \<open>Dictionaries\<close>

text \<open>
  A Python \<open>dict\<close> keeps its keys in insertion order, and \<open>', '.join(d)\<close> reads them in
  that order, so a dictionary is an association list with one pair per key. Storing under
  a key that is already there replaces the value and leaves the key where it is; a new
  key goes to the end.
\<close>

type_synonym ('k, 'v) dict = "('k \<times> 'v) list"

fun dict_set :: "('k, 'v) dict \<Rightarrow> 'k \<Rightarrow> 'v \<Rightarrow> ('k, 'v) dict" where
  "dict_set [] k v = [(k, v)]"
| "dict_set ((k', v') # d) k v =
     (if k' = k then (k', v) # d else (k', v') # dict_set d k v)"

definition dict_keys :: "('k, 'v) dict \<Rightarrow> 'k list" where
  "dict_keys d = map fst d"

text \<open>\<open>k in d\<close>\<close>

definition dict_contains :: "('k, 'v) dict \<Rightarrow> 'k \<Rightarrow> bool" where
  "dict_contains d k = (k \<in> set (dict_keys d))"

text \<open>\<open>d[k]\<close>, which raises \<open>KeyError\<close> on a missing key\<close>

definition dict_getitem :: "(string, 'v) dict \<Rightarrow> string \<Rightarrow> exn + 'v" where
  "dict_getitem d k = (case map_of d k of None \<Rightarrow> Inl (KeyError k) | Some v \<Rightarrow> Inr v)"

section \<open>The strategy registry: \<open>BaseStrategy.get_all\<close> and \<open>BaseStrategy.find\<close>\<close>

text \<open>
  What the code reads of a class object. \<open>cls_id\<close> is the identity of the class
  object, \<open>cls_name\<close> its \<open>__name__\<close>. \<open>display_name\<close> is the value of
  \<open>cls.__display_name__\<close>: the descriptor that computes it is installed by the decorator
  \<open>add_display_name\<close> of \<open>robusta_krr.utils.display_name\<close>, which is not part of the
  file verified here, so the value is a parameter of each class. \<open>declared_bases\<close> are
  the bases as written in the \<open>class\<close> statement: a class, or a generic class with type
  arguments in brackets. \<open>mro_tail\<close> are the classes that follow the class in its
  \<open>__mro__\<close>, the order in which the interpreter looks an attribute up, each with its
  name and its own bases as written. The last two fields are read by
  \<open>get_settings_type\<close> below.
\<close>

datatype tyarg = ClassArg string | TypeVarArg string

datatype base = PlainBase string | Subscripted string "tyarg list"

record strategy_cls =
  cls_id :: nat
  cls_name :: string
  display_name :: string
  declared_bases :: "base list"
  mro_tail :: "(string \<times> base list) list"

text \<open>
  \<open>get_all\<close>, with \<open>cls.__subclasses__()\<close> (the direct subclasses alive after the import
  of \<open>robusta_krr.strategies\<close>, in definition order) as the parameter \<open>subs\<close>:
  \<^verbatim>\<open>return {sub_cls.__display_name__.lower(): sub_cls for sub_cls in cls.__subclasses__()}\<close>
  The comprehension stores one class after the other, starting from the empty dict.
\<close>

definition get_all :: "strategy_cls list \<Rightarrow> (string, strategy_cls) dict" where
  "get_all subs = foldl (\<lambda>d sub_cls. dict_set d (lower (display_name sub_cls)) sub_cls) [] subs"

text \<open>
  The text of the f-string
  \<^verbatim>\<open>f"Unknown strategy name: {name}. Available strategies: {', '.join(strategies)}"\<close>
  Joining a dict joins its keys.
\<close>

definition unknown_strategy_message :: "string \<Rightarrow> (string, 'v) dict \<Rightarrow> string" where
  "unknown_strategy_message name strategies =
     ''Unknown strategy name: '' @ name @ ''. Available strategies: ''
       @ join '', '' (dict_keys strategies)"

text \<open>
  \<^verbatim>\<open>strategies = cls.get_all()
  if name.lower() in strategies:
      return strategies[name.lower()]
  raise ValueError(...)\<close>
\<close>

definition find_strategy :: "strategy_cls list \<Rightarrow> string \<Rightarrow> exn + strategy_cls" where
  "find_strategy subs name =
     (let strategies = get_all subs
      in if dict_contains strategies (lower name)
         then dict_getitem strategies (lower name)
         else Inl (ValueError (unknown_strategy_message name strategies)))"

section \<open>\<open>BaseStrategy.get_settings_type\<close>\<close>

text \<open>
  \<^verbatim>\<open>return get_args(cls.__orig_bases__[0])[0]\<close>

  \<open>BaseStrategy\<close> is declared \<open>class BaseStrategy(abc.ABC, Generic[_StrategySettings])\<close>,
  so its own \<open>__orig_bases__\<close> is \<open>(abc.ABC, Generic[_StrategySettings])\<close>, and its
  \<open>__mro__\<close> is \<open>(BaseStrategy, ABC, Generic, object)\<close>.
\<close>

definition BaseStrategy_orig_bases :: "base list" where
  "BaseStrategy_orig_bases =
     [PlainBase ''ABC'', Subscripted ''Generic'' [TypeVarArg ''_StrategySettings'']]"

definition BaseStrategy_mro :: "(string \<times> base list) list" where
  "BaseStrategy_mro =
     [(''BaseStrategy'', BaseStrategy_orig_bases), (''ABC'', []), (''Generic'', []),
      (''object'', [])]"

fun is_subscripted :: "base \<Rightarrow> bool" where
  "is_subscripted (Subscripted _ _) = True"
| "is_subscripted (PlainBase _) = False"

text \<open>
  The attribute \<open>cls.__orig_bases__\<close>. A class statement with a subscripted base
  (\<open>BaseStrategy[S]\<close>, \<open>Generic[T]\<close>) stores the bases as written in the class's own
  \<open>__orig_bases__\<close>; a class statement with plain bases only stores nothing. Reading the
  attribute goes through the classes of the \<open>__mro__\<close>, the class itself first, and takes
  the first \<open>__orig_bases__\<close> that is stored; without any, it raises \<open>AttributeError\<close>.
  \<open>lookup_orig_bases\<close> takes the bases as written of the classes of the \<open>__mro__\<close>, in
  order.
\<close>

fun lookup_orig_bases :: "base list list \<Rightarrow> exn + base list" where
  "lookup_orig_bases [] = Inl (AttributeError ''__orig_bases__'')"
| "lookup_orig_bases (bases # rest) =
     (if list_ex is_subscripted bases then Inr bases else lookup_orig_bases rest)"

definition orig_bases :: "strategy_cls \<Rightarrow> exn + base list" where
  "orig_bases cls = lookup_orig_bases (declared_bases cls # map snd (mro_tail cls))"

text \<open>\<open>typing.get_args\<close>: the arguments of a subscripted generic, \<open>()\<close> for anything else\<close>

fun get_args :: "base \<Rightarrow> tyarg list" where
  "get_args (Subscripted _ args) = args"
| "get_args (PlainBase _) = []"

text \<open>\<open>t[0]\<close> on a tuple\<close>

definition tuple_first :: "'a list \<Rightarrow> exn + 'a" where
  "tuple_first t = (case t of [] \<Rightarrow> Inl (IndexError ''tuple index out of range'') | x # _ \<Rightarrow> Inr x)"

definition get_settings_type :: "strategy_cls \<Rightarrow> exn + tyarg" where
  "get_settings_type cls =
     (case orig_bases cls of
        Inl e \<Rightarrow> Inl e
      | Inr t \<Rightarrow>
          (case tuple_first t of
             Inl e \<Rightarrow> Inl e
           | Inr b \<Rightarrow> tuple_first (get_args b)))"

section \<open>The pydantic models\<close>

text \<open>
  \<open>ResourceRecommendation\<close> and \<open>StrategySettings\<close> derive from \<open>pydantic.BaseModel\<close>, so
  what their construction does is the library's validation, here that of pydantic 1.x
  (the major version with which \<open>Optional[...]\<close> fields without a default are not
  required). Keyword arguments are a map from argument name to value. A value is
  taken to be of the annotated type already (a \<open>float\<close>; a \<open>Decimal\<close> or \<open>None\<close>): what
  the library makes of strings and other types is not modelled.
\<close>

subsection \<open>\<open>float\<close> and \<open>Decimal\<close> values\<close>

text \<open>
  A \<open>float\<close> is a finite number, an infinity or NaN. Every finite double is a rational
  number, and comparing two of them is exact, so finite values are rationals.
\<close>

datatype pyfloat = Finite rat | PosInf | NegInf | NaN

text \<open>\<open>a >= b\<close> and \<open>a < b\<close> on floats: any comparison with NaN is false\<close>

fun float_ge :: "pyfloat \<Rightarrow> pyfloat \<Rightarrow> bool" where
  "float_ge NaN _ = False"
| "float_ge _ NaN = False"
| "float_ge PosInf _ = True"
| "float_ge _ NegInf = True"
| "float_ge (Finite a) (Finite b) = (b \<le> a)"
| "float_ge (Finite _) PosInf = False"
| "float_ge NegInf _ = False"

fun float_lt :: "pyfloat \<Rightarrow> pyfloat \<Rightarrow> bool" where
  "float_lt NaN _ = False"
| "float_lt _ NaN = False"
| "float_lt PosInf _ = False"
| "float_lt _ NegInf = False"
| "float_lt (Finite a) (Finite b) = (a < b)"
| "float_lt (Finite _) PosInf = True"
| "float_lt NegInf _ = True"

text \<open>
  A finite \<open>Decimal\<close> is a signed coefficient and an exponent, with the value
  \<open>coefficient * 10 ** exponent\<close>; its sign is the sign of the coefficient.
\<close>

datatype pydecimal = Dec int int

fun dec_nonneg :: "pydecimal \<Rightarrow> bool" where
  "dec_nonneg (Dec coefficient exponent) = (0 \<le> coefficient)"

subsection \<open>\<open>ResourceRecommendation\<close>\<close>

text \<open>
  \<^verbatim>\<open>class ResourceRecommendation(pd.BaseModel):
      request: Optional[Decimal]
      limit: Optional[Decimal]\<close>
  Neither field has a default or a constraint: a field that is not passed is \<open>None\<close>, and a
  \<open>Decimal\<close> or \<open>None\<close> that is passed is stored as it is.
\<close>

record ResourceRecommendation =
  request :: "pydecimal option"
  limit :: "pydecimal option"

definition optional_field :: "(string \<rightharpoonup> 'a option) \<Rightarrow> string \<Rightarrow> 'a option" where
  "optional_field kwargs name = (case kwargs name of None \<Rightarrow> None | Some v \<Rightarrow> v)"

definition ResourceRecommendation_init ::
  "(string \<rightharpoonup> pydecimal option) \<Rightarrow> exn + ResourceRecommendation" where
  "ResourceRecommendation_init kwargs =
     Inr \<lparr>request = optional_field kwargs ''request'', limit = optional_field kwargs ''limit''\<rparr>"

subsection \<open>\<open>StrategySettings\<close>\<close>

text \<open>
  \<^verbatim>\<open>class StrategySettings(pd.BaseModel):
      history_duration: float = pd.Field(24 * 7 * 2, ge=1, description=...)
      timeframe_duration: float = pd.Field(15, ge=1, description=...)\<close>
  A field that is not passed takes its default, unchecked. A value that is passed is
  checked against \<open>ge=1\<close>: the library raises unless \<open>v >= 1\<close>. The errors of all fields are
  collected, in field order, into one \<open>ValidationError\<close>; each names its field. Keyword
  arguments that name no field are ignored (the library's default \<open>extra = ignore\<close>).
\<close>

record StrategySettings =
  history_duration :: pyfloat
  timeframe_duration :: pyfloat

definition float_field ::
  "(string \<rightharpoonup> pyfloat) \<Rightarrow> string \<Rightarrow> pyfloat \<Rightarrow> (string \<times> string) list + pyfloat" where
  "float_field kwargs name dflt =
     (case kwargs name of
        None \<Rightarrow> Inr dflt
      | Some v \<Rightarrow>
          if \<not> float_ge v (Finite 1)
          then Inl [(name, ''ensure this value is greater than or equal to 1'')]
          else Inr v)"

fun field_errors :: "(string \<times> string) list + 'a \<Rightarrow> (string \<times> string) list" where
  "field_errors (Inl es) = es"
| "field_errors (Inr _) = []"

definition StrategySettings_init :: "(string \<rightharpoonup> pyfloat) \<Rightarrow> exn + StrategySettings" where
  "StrategySettings_init kwargs =
     (let h = float_field kwargs ''history_duration'' (Finite (24 * 7 * 2));
          t = float_field kwargs ''timeframe_duration'' (Finite 15)
      in case (h, t) of
           (Inr hv, Inr tv) \<Rightarrow> Inr \<lparr>history_duration = hv, timeframe_duration = tv\<rparr>
         | _ \<Rightarrow> Inl (ValidationError (field_errors h @ field_errors t)))"

section \<open>\<open>datetime.timedelta\<close> and the derived accessors\<close>

text \<open>
  \<^verbatim>\<open>@property
  def history_timedelta(self) -> datetime.timedelta:
      return datetime.timedelta(hours=self.history_duration)

  @property
  def timeframe_timedelta(self) -> datetime.timedelta:
      return datetime.timedelta(minutes=self.timeframe_duration)\<close>
  Both accessors call the constructor of the standard library's \<open>timedelta\<close> with one
  \<open>float\<close> keyword. The model follows CPython's implementation of that constructor
  (\<open>delta_new\<close>, \<open>accum\<close> and \<open>microseconds_to_delta\<close> of the \<open>_datetime\<close> module).

  A \<open>timedelta\<close> is a normalised triple with \<open>0 <= seconds < 86400\<close>,
  \<open>0 <= microseconds < 1000000\<close> and \<open>-999999999 <= days <= 999999999\<close>.
\<close>

record timedelta =
  days :: int
  seconds :: int
  microseconds :: int

text \<open>The duration as a number of microseconds\<close>

definition total_microseconds :: "timedelta \<Rightarrow> int" where
  "total_microseconds td = (days td * 86400 + seconds td) * 1000000 + microseconds td"

text \<open>
  C's \<open>modf\<close> splits a double into an integral part, truncated towards zero, and a
  fraction of the same sign. C's \<open>round\<close> rounds to the nearest integer, halves away
  from zero.
\<close>

definition trunc_rat :: "rat \<Rightarrow> int" where
  "trunc_rat x = (if 0 \<le> x then \<lfloor>x\<rfloor> else \<lceil>x\<rceil>)"

definition c_round :: "rat \<Rightarrow> int" where
  "c_round x = (if 0 \<le> x then \<lfloor>x + 1 / 2\<rfloor> else \<lceil>x - 1 / 2\<rceil>)"

text \<open>
  The product of two doubles is the exact product rounded to the nearest double, ties
  to the even significand. \<open>float_exponent x\<close> is the binary exponent
  \<open>\<lfloor>log\<^sub>2 \<bar>x\<bar>\<rfloor>\<close> of a number other than 0, from the bit lengths of numerator and
  denominator; a double has 53 significant bits, and exponents at least \<open>-1022\<close>, below
  which the spacing of the doubles stays that of exponent \<open>-1022\<close>. Overflow does not
  arise: \<open>fl\<close> is applied to products below \<open>3600000000\<close> only.
\<close>

definition round_half_even :: "rat \<Rightarrow> int" where
  "round_half_even x =
     (let f = \<lfloor>x\<rfloor>; r = x - of_int f
      in if r < 1 / 2 then f else if 1 / 2 < r then f + 1 else if even f then f else f + 1)"

definition float_exponent :: "rat \<Rightarrow> int" where
  "float_exponent x =
     (let (a, b) = quotient_of \<bar>x\<bar>; e0 = bitlen a - bitlen b
      in if 2 powi e0 \<le> \<bar>x\<bar> then e0 else e0 - 1)"

definition fl :: "rat \<Rightarrow> rat" where
  "fl x = (if x = 0 then 0
           else let e = max (float_exponent x) (- 1022); q = 2 powi (e - 52)
                in of_int (round_half_even (x / q)) * q)"

text \<open>The constants \<open>us_per_hour\<close> and \<open>us_per_minute\<close> of the module\<close>

definition us_per_hour :: int where "us_per_hour = 3600000000"
definition us_per_minute :: int where "us_per_minute = 60000000"

text \<open>
  \<open>accum(tag, sofar, num, factor, &leftover)\<close> for a float \<open>num\<close>: the integral part of
  \<open>num\<close> is converted to an \<open>int\<close> (which raises \<open>OverflowError\<close> for an infinity and
  \<open>ValueError\<close> for NaN) and multiplied exactly; the fraction is multiplied in double
  arithmetic, the integral part of that product is added, and its fraction is the
  leftover. The result is the new sum and the leftover. The text of an \<open>OverflowError\<close>
  is not modelled.
\<close>

definition accum :: "int \<Rightarrow> pyfloat \<Rightarrow> int \<Rightarrow> exn + (int \<times> rat)" where
  "accum sofar num factor =
     (case num of
        NaN \<Rightarrow> Inl (ValueError ''cannot convert float NaN to integer'')
      | PosInf \<Rightarrow> Inl OverflowError
      | NegInf \<Rightarrow> Inl OverflowError
      | Finite dnum \<Rightarrow>
          let intpart = trunc_rat dnum;
              fracpart = dnum - of_int intpart;
              sum = sofar + intpart * factor
          in if fracpart = 0 then Inr (sum, 0)
             else let dnum' = fl (of_int factor * fracpart);
                      intpart' = trunc_rat dnum';
                      fracpart' = dnum' - of_int intpart'
                  in Inr (sum + intpart', fracpart'))"

text \<open>
  \<^verbatim>\<open>if (leftover_us) {
      double whole_us = round(leftover_us);
      if (fabs(whole_us - leftover_us) == 0.5) {
          x_is_odd = x & 1;
          whole_us = 2.0 * round((leftover_us + x_is_odd) * 0.5) - x_is_odd;
      }
      x = x + (long)whole_us;
  }\<close>
\<close>

definition add_leftover :: "int \<Rightarrow> rat \<Rightarrow> int" where
  "add_leftover x leftover_us =
     (if leftover_us = 0 then x
      else let whole_us = c_round leftover_us
           in if \<bar>of_int whole_us - leftover_us\<bar> = 1 / 2
              then let x_is_odd = x mod 2
                   in x + (2 * c_round ((leftover_us + of_int x_is_odd) * (1 / 2)) - x_is_odd)
              else x + whole_us)"

text \<open>
  \<open>microseconds_to_delta\<close>: two floor divisions split the microseconds into days,
  seconds and microseconds; days outside the range raise \<open>OverflowError\<close>.
\<close>

definition microseconds_to_delta :: "int \<Rightarrow> exn + timedelta" where
  "microseconds_to_delta us =
     (let num_seconds = us div 1000000; us' = us mod 1000000;
          d = num_seconds div 86400; s = num_seconds mod 86400
      in if d < - 999999999 \<or> 999999999 < d then Inl OverflowError
         else Inr \<lparr>days = d, seconds = s, microseconds = us'\<rparr>)"

text \<open>\<open>timedelta(unit=num)\<close> for the one keyword whose unit has \<open>factor\<close> microseconds\<close>

definition delta_new :: "pyfloat \<Rightarrow> int \<Rightarrow> exn + timedelta" where
  "delta_new num factor =
     (case accum 0 num factor of
        Inl e \<Rightarrow> Inl e
      | Inr (x, leftover_us) \<Rightarrow> microseconds_to_delta (add_leftover x leftover_us))"

definition history_timedelta :: "StrategySettings \<Rightarrow> exn + timedelta" where
  "history_timedelta self = delta_new (history_duration self) us_per_hour"

definition timeframe_timedelta :: "StrategySettings \<Rightarrow> exn + timedelta" where
  "timeframe_timedelta self = delta_new (timeframe_duration self) us_per_minute"

section \<open>Example classes\<close>

text \<open>
  The registry of the specification's scenario, strategies "simple" and "margin":
  \<^verbatim>\<open>class SimpleStrategy(BaseStrategy[SimpleStrategySettings]): ...
  class MarginStrategy(BaseStrategy[MarginSettings]): ...\<close>
  and two further classes: one whose display name differs from that of \<open>SimpleStrategy\<close>
  in letter case only, and one declared as \<open>class BareStrategy(BaseStrategy)\<close>, without
  a settings type.
\<close>

definition SimpleStrategy :: strategy_cls where
  "SimpleStrategy = \<lparr>cls_id = 1, cls_name = ''SimpleStrategy'', display_name = ''Simple'',
     declared_bases = [Subscripted ''BaseStrategy'' [ClassArg ''SimpleStrategySettings'']],
     mro_tail = BaseStrategy_mro\<rparr>"

definition MarginStrategy :: strategy_cls where
  "MarginStrategy = \<lparr>cls_id = 2, cls_name = ''MarginStrategy'', display_name = ''Margin'',
     declared_bases = [Subscripted ''BaseStrategy'' [ClassArg ''MarginSettings'']],
     mro_tail = BaseStrategy_mro\<rparr>"

definition SIMPLEStrategy :: strategy_cls where
  "SIMPLEStrategy = \<lparr>cls_id = 3, cls_name = ''SIMPLEStrategy'', display_name = ''SIMPLE'',
     declared_bases = [Subscripted ''BaseStrategy'' [ClassArg ''SimpleStrategySettings'']],
     mro_tail = BaseStrategy_mro\<rparr>"

definition BareStrategy :: strategy_cls where
  "BareStrategy = \<lparr>cls_id = 4, cls_name = ''BareStrategy'', display_name = ''Bare'',
     declared_bases = [PlainBase ''BaseStrategy''],
     mro_tail = BaseStrategy_mro\<rparr>"

text \<open>
  Three classes with more than the one base:
  \<^verbatim>\<open>class Mixin: ...
  class MixStrategy(Mixin, BaseStrategy[MarginSettings]): ...

  class GM(Generic[T]): ...
  class GmStrategy(GM, BaseStrategy): ...

  class ChildStrategy(MarginStrategy): ...\<close>
  with the \<open>__mro__\<close> \<open>(MixStrategy, Mixin, BaseStrategy, ABC, Generic, object)\<close>,
  \<open>(GmStrategy, GM, BaseStrategy, ABC, Generic, object)\<close> and
  \<open>(ChildStrategy, MarginStrategy, BaseStrategy, ABC, Generic, object)\<close>.
\<close>

definition MixStrategy :: strategy_cls where
  "MixStrategy = \<lparr>cls_id = 5, cls_name = ''MixStrategy'', display_name = ''Mix'',
     declared_bases = [PlainBase ''Mixin'', Subscripted ''BaseStrategy'' [ClassArg ''MarginSettings'']],
     mro_tail = (''Mixin'', []) # BaseStrategy_mro\<rparr>"

definition GmStrategy :: strategy_cls where
  "GmStrategy = \<lparr>cls_id = 6, cls_name = ''GmStrategy'', display_name = ''Gm'',
     declared_bases = [PlainBase ''GM'', PlainBase ''BaseStrategy''],
     mro_tail = (''GM'', [Subscripted ''Generic'' [TypeVarArg ''T'']]) # BaseStrategy_mro\<rparr>"

definition ChildStrategy :: strategy_cls where
  "ChildStrategy = \<lparr>cls_id = 7, cls_name = ''ChildStrategy'', display_name = ''Child'',
     declared_bases = [PlainBase ''MarginStrategy''],
     mro_tail = (''MarginStrategy'', [Subscripted ''BaseStrategy'' [ClassArg ''MarginSettings'']])
                  # BaseStrategy_mro\<rparr>"

section \<open>Properties of the string and dictionary operations\<close>

lemma lower_char_idem: "lower_char (lower_char c) = lower_char c"
proof -
  have n: "(of_char c :: nat) < 256" by simp
  show ?thesis
    using n by (auto simp: lower_char_def Let_def)
qed

lemma lower_idem: "lower (lower s) = lower s"
  by (simp add: lower_def lower_char_idem)

lemma dict_set_keys:
  "dict_keys (dict_set d k v) = (if k \<in> set (dict_keys d) then dict_keys d else dict_keys d @ [k])"
  by (induction d) (force simp: dict_keys_def)+

lemma map_of_dict_set: "map_of (dict_set d k v) = (map_of d)(k \<mapsto> v)"
  by (induction d) (auto simp: fun_eq_iff)

lemma set_dict_set: "set (dict_set d k v) \<subseteq> insert (k, v) (set d)"
  by (induction d) (auto split: if_splits)

lemma store_distinct:
  "distinct (dict_keys d) \<Longrightarrow>
   distinct (dict_keys (foldl (\<lambda>d c. dict_set d (lower (display_name c)) c) d subs))"
  by (induction subs arbitrary: d) (simp_all add: dict_set_keys)

lemma store_keyed:
  "\<forall>(k, v) \<in> set d. k = lower (display_name v) \<Longrightarrow>
   \<forall>(k, v) \<in> set (foldl (\<lambda>d c. dict_set d (lower (display_name c)) c) d subs).
      k = lower (display_name v)"
proof (induction subs arbitrary: d)
  case Nil
  then show ?case by simp
next
  case (Cons c cs)
  have "\<forall>(k, v) \<in> set (dict_set d (lower (display_name c)) c). k = lower (display_name v)"
    using Cons.prems set_dict_set[of d "lower (display_name c)" c] by auto
  then show ?case using Cons.IH by simp
qed

lemma store_map_of:
  "map_of (foldl (\<lambda>d c. dict_set d (lower (display_name c)) c) d subs)
     = map_of d ++ map_of (rev (map (\<lambda>c. (lower (display_name c), c)) subs))"
  by (induction subs arbitrary: d) (simp_all add: map_of_dict_set)

lemma get_all_distinct: "distinct (dict_keys (get_all subs))"
  unfolding get_all_def by (rule store_distinct) (simp add: dict_keys_def)

lemma get_all_keyed: "(k, v) \<in> set (get_all subs) \<Longrightarrow> k = lower (display_name v)"
  using store_keyed[of "[]" subs] unfolding get_all_def by auto

lemma get_all_map_of:
  "map_of (get_all subs) = map_of (rev (map (\<lambda>c. (lower (display_name c), c)) subs))"
  unfolding get_all_def by (simp add: store_map_of)

lemma get_all_lookup_iff:
  "map_of (get_all subs) k = Some v \<longleftrightarrow> (k, v) \<in> set (get_all subs)"
  using get_all_distinct[of subs] by (simp add: dict_keys_def map_of_eq_Some_iff)

lemma dict_contains_iff: "dict_contains d k \<longleftrightarrow> map_of d k \<noteq> None"
  by (simp add: dict_contains_def dict_keys_def map_of_eq_None_iff)

lemma find_strategy_hit:
  "map_of (get_all subs) (lower name) = Some T \<Longrightarrow> find_strategy subs name = Inr T"
  by (simp add: find_strategy_def dict_contains_iff dict_getitem_def)

lemma find_strategy_miss:
  "map_of (get_all subs) (lower name) = None \<Longrightarrow>
   find_strategy subs name = Inl (ValueError (unknown_strategy_message name (get_all subs)))"
  by (simp add: find_strategy_def dict_contains_iff)

lemma sublist_join: "k \<in> set xs \<Longrightarrow> sublist k (join sep xs)"
proof (induction sep xs rule: join.induct)
  case (3 sep x y ys)
  show ?case
  proof (cases "k = x")
    case True
    then show ?thesis by simp
  next
    case False
    with 3 have "sublist k (join sep (y # ys))" by simp
    then obtain ps ss where "join sep (y # ys) = ps @ k @ ss" by (auto simp: sublist_def)
    then have "join sep (x # y # ys) = (x @ sep @ ps) @ k @ ss" by simp
    then show ?thesis unfolding sublist_def by blast
  qed
qed simp_all

section \<open>The registry claims\<close>

lemma get_all_simple_margin:
  "get_all [SimpleStrategy, MarginStrategy]
     = [(''simple'', SimpleStrategy), (''margin'', MarginStrategy)]"
  by code_simp

text \<open>
  C1 (round-trip lookup). For every class \<open>T\<close> that is a value of the mapping returned
  by \<open>get_all()\<close>, \<open>find(T.__display_name__.lower())\<close> returns exactly \<open>T\<close>.
\<close>

theorem find_display_name_roundtrip:
  "T \<in> snd ` set (get_all subs) \<Longrightarrow> find_strategy subs (lower (display_name T)) = Inr T"
proof -
  assume "T \<in> snd ` set (get_all subs)"
  then obtain k where kT: "(k, T) \<in> set (get_all subs)" by force
  then have "k = lower (display_name T)" by (rule get_all_keyed)
  with kT have "map_of (get_all subs) (lower (lower (display_name T))) = Some T"
    by (simp add: get_all_lookup_iff lower_idem)
  then show ?thesis by (rule find_strategy_hit)
qed

theorem find_display_name_roundtrip_witness:
  "MarginStrategy \<in> snd ` set (get_all [SimpleStrategy, MarginStrategy])
   \<and> find_strategy [SimpleStrategy, MarginStrategy] (lower (display_name MarginStrategy))
       = Inr MarginStrategy"
  using find_display_name_roundtrip[of MarginStrategy "[SimpleStrategy, MarginStrategy]"]
  by (simp add: get_all_simple_margin)

text \<open>
  C3 (unknown-name error). When the lower-cased name is not a key of \<open>get_all()\<close>,
  \<open>find(name)\<close> raises the \<open>ValueError\<close> "Unknown strategy name: ...", and every key of
  \<open>get_all()\<close> occurs in its message.
\<close>

theorem find_unknown_name_lists_all:
  "\<not> dict_contains (get_all subs) (lower name) \<Longrightarrow>
   find_strategy subs name =
     Inl (ValueError (''Unknown strategy name: '' @ name @ ''. Available strategies: ''
            @ join '', '' (dict_keys (get_all subs))))
   \<and> (\<forall>k \<in> set (dict_keys (get_all subs)).
         sublist k (''Unknown strategy name: '' @ name @ ''. Available strategies: ''
            @ join '', '' (dict_keys (get_all subs))))"
proof -
  assume miss: "\<not> dict_contains (get_all subs) (lower name)"
  have "\<forall>k \<in> set (dict_keys (get_all subs)).
         sublist k (''Unknown strategy name: '' @ name @ ''. Available strategies: ''
            @ join '', '' (dict_keys (get_all subs)))"
  proof
    fix k assume "k \<in> set (dict_keys (get_all subs))"
    then have "sublist k (join '', '' (dict_keys (get_all subs)))" by (rule sublist_join)
    then obtain ps ss where "join '', '' (dict_keys (get_all subs)) = ps @ k @ ss"
      by (auto simp: sublist_def)
    then have "''Unknown strategy name: '' @ name @ ''. Available strategies: ''
            @ join '', '' (dict_keys (get_all subs))
        = (''Unknown strategy name: '' @ name @ ''. Available strategies: '' @ ps) @ k @ ss"
      by simp
    then show "sublist k (''Unknown strategy name: '' @ name @ ''. Available strategies: ''
            @ join '', '' (dict_keys (get_all subs)))"
      unfolding sublist_def by blast
  qed
  with miss show ?thesis
    by (simp add: find_strategy_def unknown_strategy_message_def)
qed

theorem find_unknown_name_lists_all_witness:
  "\<not> dict_contains (get_all [SimpleStrategy, MarginStrategy]) (lower ''does-not-exist'')
   \<and> find_strategy [SimpleStrategy, MarginStrategy] ''does-not-exist''
       = Inl (ValueError ''Unknown strategy name: does-not-exist. Available strategies: simple, margin'')
   \<and> sublist ''simple'' ''Unknown strategy name: does-not-exist. Available strategies: simple, margin''
   \<and> sublist ''margin'' ''Unknown strategy name: does-not-exist. Available strategies: simple, margin''"
proof -
  have miss: "\<not> dict_contains (get_all [SimpleStrategy, MarginStrategy]) (lower ''does-not-exist'')"
    by code_simp
  from find_unknown_name_lists_all[OF miss] miss show ?thesis
    by (simp add: get_all_simple_margin dict_keys_def)
qed

text \<open>
  C4 (case-insensitive lookup). \<open>find(name)\<close> and \<open>find(name.lower())\<close> have the same
  outcome: one returns the class \<open>T\<close> exactly when the other does, and one fails exactly
  when the other does. On a miss both raise the \<open>ValueError\<close> of \<open>find\<close> over the same
  mapping, each message quoting the name as it was passed. In particular a name that
  differs from the display name of a registered class \<open>T\<close> in letter case only resolves
  to \<open>T\<close>.
\<close>

theorem find_case_insensitive:
  "(find_strategy subs name = Inr T \<longleftrightarrow> find_strategy subs (lower name) = Inr T)
   \<and> (isl (find_strategy subs name) \<longleftrightarrow> isl (find_strategy subs (lower name)))
   \<and> (isl (find_strategy subs name) \<longrightarrow>
         find_strategy subs name
           = Inl (ValueError (unknown_strategy_message name (get_all subs)))
       \<and> find_strategy subs (lower name)
           = Inl (ValueError (unknown_strategy_message (lower name) (get_all subs))))
   \<and> (T \<in> snd ` set (get_all subs) \<and> lower name = lower (display_name T)
         \<longrightarrow> find_strategy subs name = Inr T)"
proof (cases "map_of (get_all subs) (lower name)")
  case None
  then have a: "find_strategy subs name
      = Inl (ValueError (unknown_strategy_message name (get_all subs)))"
    by (rule find_strategy_miss)
  from None have "map_of (get_all subs) (lower (lower name)) = None"
    by (simp add: lower_idem)
  then have b: "find_strategy subs (lower name)
      = Inl (ValueError (unknown_strategy_message (lower name) (get_all subs)))"
    by (rule find_strategy_miss)
  have c: "\<not> (T \<in> snd ` set (get_all subs) \<and> lower name = lower (display_name T))"
  proof
    assume h: "T \<in> snd ` set (get_all subs) \<and> lower name = lower (display_name T)"
    then obtain k where kT: "(k, T) \<in> set (get_all subs)" by force
    then have "k = lower name" using h get_all_keyed by simp
    with kT have "map_of (get_all subs) (lower name) = Some T"
      by (simp add: get_all_lookup_iff)
    with None show False by simp
  qed
  from a b c show ?thesis by simp
next
  case (Some U)
  then have a: "find_strategy subs name = Inr U" by (rule find_strategy_hit)
  from Some have "map_of (get_all subs) (lower (lower name)) = Some U"
    by (simp add: lower_idem)
  then have b: "find_strategy subs (lower name) = Inr U" by (rule find_strategy_hit)
  have c: "T \<in> snd ` set (get_all subs) \<and> lower name = lower (display_name T) \<longrightarrow> U = T"
  proof
    assume h: "T \<in> snd ` set (get_all subs) \<and> lower name = lower (display_name T)"
    then obtain k where kT: "(k, T) \<in> set (get_all subs)" by force
    then have "k = lower name" using h get_all_keyed by simp
    with kT have "map_of (get_all subs) (lower name) = Some T"
      by (simp add: get_all_lookup_iff)
    with Some show "U = T" by simp
  qed
  from a b c show ?thesis by auto
qed

theorem find_case_insensitive_witness:
  "find_strategy [SimpleStrategy, MarginStrategy] ''Simple'' = Inr SimpleStrategy
   \<and> find_strategy [SimpleStrategy, MarginStrategy] (lower ''Simple'') = Inr SimpleStrategy
   \<and> SimpleStrategy \<in> snd ` set (get_all [SimpleStrategy, MarginStrategy])
   \<and> lower ''Simple'' = lower (display_name SimpleStrategy)"
proof -
  have v: "SimpleStrategy \<in> snd ` set (get_all [SimpleStrategy, MarginStrategy])"
    by (simp add: get_all_simple_margin)
  have l: "lower ''Simple'' = lower (display_name SimpleStrategy)"
    by (simp add: SimpleStrategy_def)
  note th = find_case_insensitive[of "[SimpleStrategy, MarginStrategy]" "''Simple''" SimpleStrategy]
  from th v l have a: "find_strategy [SimpleStrategy, MarginStrategy] ''Simple'' = Inr SimpleStrategy"
    by blast
  with th have "find_strategy [SimpleStrategy, MarginStrategy] (lower ''Simple'') = Inr SimpleStrategy"
    by blast
  with a v l show ?thesis by blast
qed

section \<open>Name collisions in \<open>get_all\<close>\<close>

lemma map_of_rev_last:
  "f c \<notin> f ` set after \<Longrightarrow>
   map_of (rev (map (\<lambda>c. (f c, c)) (before @ c # after))) (f c) = Some c"
  by (auto simp: map_add_def image_iff split: option.splits dest!: map_of_SomeD)

lemma one_entry:
  "distinct (map fst d) \<Longrightarrow> (k, v) \<in> set d \<Longrightarrow> length (filter (\<lambda>(k', v'). k' = k) d) = 1"
proof (induction d)
  case Nil
  then show ?case by simp
next
  case (Cons p d)
  show ?case
  proof (cases "fst p = k")
    case True
    with Cons.prems have "k \<notin> fst ` set d" by auto
    then have "filter (\<lambda>(k', v'). k' = k) d = []"
      by (force simp: filter_empty_conv)
    with True show ?thesis by (cases p) simp
  next
    case False
    with Cons show ?thesis by (cases p) auto
  qed
qed

text \<open>
  C7 (name-collision overwrite). When the classes at positions \<open>i < j\<close> of the
  enumeration have the same lower-cased display name, and no class after position \<open>j\<close>
  has it, the mapping has exactly one entry for that name, its value is the class at
  position \<open>j\<close>, and the earlier class is no value of the mapping any more.
\<close>

theorem get_all_collision_last_wins:
  assumes "i < j" and "j < length subs"
    and "lower (display_name (subs ! i)) = lower (display_name (subs ! j))"
    and "lower (display_name (subs ! j))
           \<notin> set (map (\<lambda>c. lower (display_name c)) (drop (Suc j) subs))"
  shows "length (filter (\<lambda>(k, v). k = lower (display_name (subs ! j))) (get_all subs)) = 1
     \<and> dict_getitem (get_all subs) (lower (display_name (subs ! j))) = Inr (subs ! j)
     \<and> (subs ! i = subs ! j \<or> subs ! i \<notin> snd ` set (get_all subs))"
proof -
  let ?f = "\<lambda>c. lower (display_name c)"
  let ?k = "?f (subs ! j)"
  have split: "subs = take j subs @ subs ! j # drop (Suc j) subs"
    using assms(2) by (rule id_take_nth_drop)
  have "map_of (rev (map (\<lambda>c. (?f c, c)) (take j subs @ subs ! j # drop (Suc j) subs))) ?k
          = Some (subs ! j)"
    using assms(4) by (intro map_of_rev_last) simp
  with split have look: "map_of (get_all subs) ?k = Some (subs ! j)"
    by (simp add: get_all_map_of)
  then have mem: "(?k, subs ! j) \<in> set (get_all subs)"
    by (simp add: get_all_lookup_iff)
  have one: "length (filter (\<lambda>(k, v). k = ?k) (get_all subs)) = 1"
    using get_all_distinct[of subs] mem by (intro one_entry) (simp_all add: dict_keys_def)
  have gone: "subs ! i = subs ! j \<or> subs ! i \<notin> snd ` set (get_all subs)"
  proof (cases "subs ! i \<in> snd ` set (get_all subs)")
    case True
    then obtain k where kT: "(k, subs ! i) \<in> set (get_all subs)" by force
    then have "k = ?k" using get_all_keyed assms(3) by simp
    with kT have "map_of (get_all subs) ?k = Some (subs ! i)"
      by (simp add: get_all_lookup_iff)
    with look show ?thesis by simp
  next
    case False
    then show ?thesis by simp
  qed
  from one look gone show ?thesis by (simp add: dict_getitem_def)
qed

lemma get_all_collision:
  "get_all [SimpleStrategy, MarginStrategy, SIMPLEStrategy]
     = [(''simple'', SIMPLEStrategy), (''margin'', MarginStrategy)]"
  by code_simp

theorem get_all_collision_last_wins_witness:
  "length (filter (\<lambda>(k, v). k = ''simple'') (get_all [SimpleStrategy, MarginStrategy, SIMPLEStrategy])) = 1
   \<and> dict_getitem (get_all [SimpleStrategy, MarginStrategy, SIMPLEStrategy]) ''simple'' = Inr SIMPLEStrategy
   \<and> SimpleStrategy \<notin> snd ` set (get_all [SimpleStrategy, MarginStrategy, SIMPLEStrategy])
   \<and> lower (display_name SimpleStrategy) = lower (display_name SIMPLEStrategy)"
proof -
  have k: "lower (display_name SIMPLEStrategy) = ''simple''" by code_simp
  have e: "lower (display_name SimpleStrategy) = lower (display_name SIMPLEStrategy)" by code_simp
  have ne: "SimpleStrategy \<noteq> SIMPLEStrategy" by (simp add: SimpleStrategy_def SIMPLEStrategy_def)
  have l: "lower (display_name SIMPLEStrategy)
           \<notin> set (map (\<lambda>c. lower (display_name c)) (drop (Suc 2) [SimpleStrategy, MarginStrategy, SIMPLEStrategy]))"
    by simp
  from get_all_collision_last_wins[of 0 2 "[SimpleStrategy, MarginStrategy, SIMPLEStrategy]"] k e ne l
  show ?thesis by simp
qed

section \<open>The settings type of a strategy\<close>

lemma lookup_orig_bases_own:
  "list_ex is_subscripted bases \<Longrightarrow> lookup_orig_bases (bases # rest) = Inr bases"
  by simp

lemma lookup_orig_bases_find:
  "List.find (\<lambda>c. list_ex is_subscripted (snd c)) mro = Some (name, bases) \<Longrightarrow>
   lookup_orig_bases (map snd mro) = Inr bases"
  by (induction mro) (auto split: if_splits)

text \<open>
  C5 (settings-type extraction), as stated, fails in both halves. \<open>MixStrategy\<close> is
  declared with the specialised parameter \<open>BaseStrategy[MarginSettings]\<close>, after a plain
  base, and \<open>get_settings_type()\<close> raises \<open>IndexError\<close> instead of returning
  \<open>MarginSettings\<close>. \<open>GmStrategy\<close> and \<open>ChildStrategy\<close> are declared without specialising
  the parameter, and \<open>get_settings_type()\<close> does not fail: it returns what the nearest
  class of the \<open>__mro__\<close> with stored original bases gives, the type variable \<open>T\<close> of
  \<open>GM\<close> and the \<open>MarginSettings\<close> of \<open>MarginStrategy\<close>.
\<close>

theorem get_settings_type_claim_fails:
  "declared_bases MixStrategy
     = [PlainBase ''Mixin'', Subscripted ''BaseStrategy'' [ClassArg ''MarginSettings'']]
   \<and> get_settings_type MixStrategy = Inl (IndexError ''tuple index out of range'')
   \<and> declared_bases GmStrategy = [PlainBase ''GM'', PlainBase ''BaseStrategy'']
   \<and> get_settings_type GmStrategy = Inr (TypeVarArg ''T'')
   \<and> declared_bases ChildStrategy = [PlainBase ''MarginStrategy'']
   \<and> get_settings_type ChildStrategy = Inr (ClassArg ''MarginSettings'')"
  by (simp add: MixStrategy_def GmStrategy_def ChildStrategy_def get_settings_type_def
        orig_bases_def tuple_first_def BaseStrategy_mro_def BaseStrategy_orig_bases_def)

text \<open>
  C5, amended. \<open>get_settings_type()\<close> reads the first original base only. On a class
  whose first declared base is \<open>BaseStrategy[S]\<close>, with \<open>S\<close> a class, it returns \<open>S\<close>.
  On a class declared with plain bases only, for which the nearest class of the
  \<open>__mro__\<close> with stored original bases is \<open>BaseStrategy\<close> itself, as for
  \<open>class X(BaseStrategy)\<close>, it raises \<open>IndexError\<close>: the first original base of
  \<open>BaseStrategy\<close> is \<open>abc.ABC\<close>, which has no type arguments.
\<close>

theorem get_settings_type_first_orig_base:
  "(declared_bases cls = Subscripted ''BaseStrategy'' [ClassArg S] # rest
      \<longrightarrow> get_settings_type cls = Inr (ClassArg S))
   \<and> (\<not> list_ex is_subscripted (declared_bases cls)
      \<and> List.find (\<lambda>c. list_ex is_subscripted (snd c)) (mro_tail cls)
          = Some (''BaseStrategy'', BaseStrategy_orig_bases)
      \<longrightarrow> get_settings_type cls = Inl (IndexError ''tuple index out of range''))"
proof -
  have a: "declared_bases cls = Subscripted ''BaseStrategy'' [ClassArg S] # rest
      \<longrightarrow> get_settings_type cls = Inr (ClassArg S)"
    by (simp add: get_settings_type_def orig_bases_def tuple_first_def)
  have b: "\<not> list_ex is_subscripted (declared_bases cls)
      \<and> List.find (\<lambda>c. list_ex is_subscripted (snd c)) (mro_tail cls)
          = Some (''BaseStrategy'', BaseStrategy_orig_bases)
      \<longrightarrow> get_settings_type cls = Inl (IndexError ''tuple index out of range'')"
  proof
    assume h: "\<not> list_ex is_subscripted (declared_bases cls)
      \<and> List.find (\<lambda>c. list_ex is_subscripted (snd c)) (mro_tail cls)
          = Some (''BaseStrategy'', BaseStrategy_orig_bases)"
    then have "lookup_orig_bases (map snd (mro_tail cls)) = Inr BaseStrategy_orig_bases"
      by (intro lookup_orig_bases_find) simp
    with h have "orig_bases cls = Inr BaseStrategy_orig_bases"
      by (simp add: orig_bases_def)
    then show "get_settings_type cls = Inl (IndexError ''tuple index out of range'')"
      by (simp add: get_settings_type_def tuple_first_def BaseStrategy_orig_bases_def)
  qed
  from a b show ?thesis by blast
qed

theorem get_settings_type_first_orig_base_witness:
  "declared_bases MarginStrategy = Subscripted ''BaseStrategy'' [ClassArg ''MarginSettings''] # []
   \<and> get_settings_type MarginStrategy = Inr (ClassArg ''MarginSettings'')
   \<and> \<not> list_ex is_subscripted (declared_bases BareStrategy)
   \<and> List.find (\<lambda>c. list_ex is_subscripted (snd c)) (mro_tail BareStrategy)
       = Some (''BaseStrategy'', BaseStrategy_orig_bases)
   \<and> get_settings_type BareStrategy = Inl (IndexError ''tuple index out of range'')"
proof -
  have a: "declared_bases MarginStrategy
             = Subscripted ''BaseStrategy'' [ClassArg ''MarginSettings''] # []"
    by (simp add: MarginStrategy_def)
  have b: "\<not> list_ex is_subscripted (declared_bases BareStrategy)"
    by (simp add: BareStrategy_def)
  have c: "List.find (\<lambda>c. list_ex is_subscripted (snd c)) (mro_tail BareStrategy)
       = Some (''BaseStrategy'', BaseStrategy_orig_bases)"
    by (simp add: BareStrategy_def BaseStrategy_mro_def BaseStrategy_orig_bases_def)
  from get_settings_type_first_orig_base[of MarginStrategy "''MarginSettings''" "[]"]
       get_settings_type_first_orig_base[of BareStrategy] a b c
  show ?thesis by simp
qed

section \<open>Construction of the pydantic models\<close>

lemma float_lt_not_ge: "float_lt v w \<Longrightarrow> \<not> float_ge v w"
  by (induction v w rule: float_lt.induct) simp_all

lemma float_field_cases:
  "float_field kwargs name dflt =
     (case kwargs name of
        None \<Rightarrow> Inr dflt
      | Some v \<Rightarrow> if float_ge v (Finite 1)
                 then Inr v
                 else Inl [(name, ''ensure this value is greater than or equal to 1'')])"
  by (simp add: float_field_def split: option.splits)

text \<open>
  C2 (settings bound enforcement). Constructing \<open>StrategySettings\<close> with a
  \<open>history_duration\<close> below 1 or a \<open>timeframe_duration\<close> below 1 raises a
  \<open>ValidationError\<close> that names the field. When every value passed is at least 1 the
  construction succeeds and stores the values passed, with 336 (hours) and 15 (minutes)
  for a field that is omitted. Both fields of a constructed object are at least 1.
\<close>

theorem settings_bound_enforcement:
  "(kwargs ''history_duration'' = Some h \<and> float_lt h (Finite 1) \<longrightarrow>
      (\<exists>errs. StrategySettings_init kwargs = Inl (ValidationError errs)
             \<and> ''history_duration'' \<in> fst ` set errs))
   \<and> (kwargs ''timeframe_duration'' = Some t \<and> float_lt t (Finite 1) \<longrightarrow>
      (\<exists>errs. StrategySettings_init kwargs = Inl (ValidationError errs)
             \<and> ''timeframe_duration'' \<in> fst ` set errs))
   \<and> ((case kwargs ''history_duration'' of None \<Rightarrow> True | Some v \<Rightarrow> float_ge v (Finite 1))
      \<and> (case kwargs ''timeframe_duration'' of None \<Rightarrow> True | Some v \<Rightarrow> float_ge v (Finite 1))
      \<longrightarrow> StrategySettings_init kwargs =
            Inr \<lparr>history_duration =
                   (case kwargs ''history_duration'' of None \<Rightarrow> Finite 336 | Some v \<Rightarrow> v),
                 timeframe_duration =
                   (case kwargs ''timeframe_duration'' of None \<Rightarrow> Finite 15 | Some v \<Rightarrow> v)\<rparr>)
   \<and> (StrategySettings_init kwargs = Inr s \<longrightarrow>
        float_ge (history_duration s) (Finite 1) \<and> float_ge (timeframe_duration s) (Finite 1))"
proof -
  have a: "kwargs ''history_duration'' = Some h \<and> float_lt h (Finite 1) \<longrightarrow>
      (\<exists>errs. StrategySettings_init kwargs = Inl (ValidationError errs)
             \<and> ''history_duration'' \<in> fst ` set errs)"
    by (auto simp: StrategySettings_init_def float_field_cases dest: float_lt_not_ge
             split: option.splits)
  have b: "kwargs ''timeframe_duration'' = Some t \<and> float_lt t (Finite 1) \<longrightarrow>
      (\<exists>errs. StrategySettings_init kwargs = Inl (ValidationError errs)
             \<and> ''timeframe_duration'' \<in> fst ` set errs)"
    by (auto simp: StrategySettings_init_def float_field_cases dest: float_lt_not_ge
             split: option.splits)
  have c: "(case kwargs ''history_duration'' of None \<Rightarrow> True | Some v \<Rightarrow> float_ge v (Finite 1))
      \<and> (case kwargs ''timeframe_duration'' of None \<Rightarrow> True | Some v \<Rightarrow> float_ge v (Finite 1))
      \<longrightarrow> StrategySettings_init kwargs =
            Inr \<lparr>history_duration =
                   (case kwargs ''history_duration'' of None \<Rightarrow> Finite 336 | Some v \<Rightarrow> v),
                 timeframe_duration =
                   (case kwargs ''timeframe_duration'' of None \<Rightarrow> Finite 15 | Some v \<Rightarrow> v)\<rparr>"
    by (auto simp: StrategySettings_init_def float_field_cases split: option.splits)
  have d: "StrategySettings_init kwargs = Inr s \<longrightarrow>
        float_ge (history_duration s) (Finite 1) \<and> float_ge (timeframe_duration s) (Finite 1)"
    by (auto simp: StrategySettings_init_def float_field_cases split: option.splits if_splits)
  from a b c d show ?thesis by blast
qed

theorem settings_bound_enforcement_witness:
  "float_lt (Finite (1 / 2)) (Finite 1)
   \<and> StrategySettings_init [''history_duration'' \<mapsto> Finite (1 / 2)]
       = Inl (ValidationError
               [(''history_duration'', ''ensure this value is greater than or equal to 1'')])
   \<and> StrategySettings_init [''history_duration'' \<mapsto> Finite 168, ''timeframe_duration'' \<mapsto> Finite 15]
       = Inr \<lparr>history_duration = Finite 168, timeframe_duration = Finite 15\<rparr>
   \<and> StrategySettings_init Map.empty
       = Inr \<lparr>history_duration = Finite 336, timeframe_duration = Finite 15\<rparr>"
proof -
  have lt: "float_lt (Finite (1 / 2)) (Finite 1)" by simp
  from settings_bound_enforcement[of "[''history_duration'' \<mapsto> Finite (1 / 2)]" "Finite (1 / 2)"] lt
  obtain errs where
    "StrategySettings_init [''history_duration'' \<mapsto> Finite (1 / 2)] = Inl (ValidationError errs)"
    by auto
  moreover have "StrategySettings_init [''history_duration'' \<mapsto> Finite (1 / 2)]
       = Inl (ValidationError
               [(''history_duration'', ''ensure this value is greater than or equal to 1'')])"
    by (simp add: StrategySettings_init_def float_field_def)
  moreover have "StrategySettings_init [''history_duration'' \<mapsto> Finite 168, ''timeframe_duration'' \<mapsto> Finite 15]
       = Inr \<lparr>history_duration = Finite 168, timeframe_duration = Finite 15\<rparr>"
    using settings_bound_enforcement[of "[''history_duration'' \<mapsto> Finite 168, ''timeframe_duration'' \<mapsto> Finite 15]"]
    by simp
  moreover have "StrategySettings_init Map.empty
       = Inr \<lparr>history_duration = Finite 336, timeframe_duration = Finite 15\<rparr>"
    using settings_bound_enforcement[of Map.empty] by simp
  ultimately show ?thesis using lt by simp
qed

text \<open>
  C10 (unknown settings keys ignored). Construction reads the two declared fields only:
  the outcome is that of the keyword arguments restricted to them, so it succeeds
  whenever the declared fields that are passed validate, whatever other keys are there,
  and a keyword argument that names no declared field changes neither the outcome nor
  the object built, which has no place for it.
\<close>

theorem settings_extra_keys_ignored:
  "StrategySettings_init kwargs
     = StrategySettings_init (kwargs |` {''history_duration'', ''timeframe_duration''})
   \<and> ((case kwargs ''history_duration'' of None \<Rightarrow> True | Some v \<Rightarrow> float_ge v (Finite 1))
      \<and> (case kwargs ''timeframe_duration'' of None \<Rightarrow> True | Some v \<Rightarrow> float_ge v (Finite 1))
      \<longrightarrow> (\<exists>s. StrategySettings_init kwargs = Inr s))
   \<and> (k \<noteq> ''history_duration'' \<and> k \<noteq> ''timeframe_duration''
      \<longrightarrow> StrategySettings_init (kwargs(k \<mapsto> v)) = StrategySettings_init kwargs)"
proof -
  have a: "StrategySettings_init kwargs
     = StrategySettings_init (kwargs |` {''history_duration'', ''timeframe_duration''})"
    by (simp add: StrategySettings_init_def float_field_def)
  have b: "(case kwargs ''history_duration'' of None \<Rightarrow> True | Some v \<Rightarrow> float_ge v (Finite 1))
      \<and> (case kwargs ''timeframe_duration'' of None \<Rightarrow> True | Some v \<Rightarrow> float_ge v (Finite 1))
      \<longrightarrow> (\<exists>s. StrategySettings_init kwargs = Inr s)"
    by (auto simp: StrategySettings_init_def float_field_cases split: option.splits)
  have c: "k \<noteq> ''history_duration'' \<and> k \<noteq> ''timeframe_duration''
      \<longrightarrow> StrategySettings_init (kwargs(k \<mapsto> v)) = StrategySettings_init kwargs"
    by (simp add: StrategySettings_init_def float_field_def)
  from a b c show ?thesis by blast
qed

theorem settings_extra_keys_ignored_witness:
  "''cpu_percentile'' \<noteq> ''history_duration'' \<and> ''cpu_percentile'' \<noteq> ''timeframe_duration''
   \<and> StrategySettings_init [''history_duration'' \<mapsto> Finite 168, ''cpu_percentile'' \<mapsto> Finite 99]
       = StrategySettings_init [''history_duration'' \<mapsto> Finite 168]
   \<and> StrategySettings_init [''history_duration'' \<mapsto> Finite 168, ''cpu_percentile'' \<mapsto> Finite 99]
       = Inr \<lparr>history_duration = Finite 168, timeframe_duration = Finite 15\<rparr>"
proof -
  have "StrategySettings_init [''history_duration'' \<mapsto> Finite 168]
       = Inr \<lparr>history_duration = Finite 168, timeframe_duration = Finite 15\<rparr>"
    by (simp add: StrategySettings_init_def float_field_def)
  with settings_extra_keys_ignored[of "[''history_duration'' \<mapsto> Finite 168]" "''cpu_percentile''" "Finite 99"]
  show ?thesis by simp
qed

text \<open>
  C8 (non-negative recommendation fields), as stated, fails: the fields carry no
  constraint, and a negative \<open>Decimal\<close> is accepted and stored.
\<close>

theorem recommendation_negative_accepted:
  "ResourceRecommendation_init [''request'' \<mapsto> Some (Dec (- 1) 0)]
     = Inr \<lparr>request = Some (Dec (- 1) 0), limit = None\<rparr>
   \<and> \<not> dec_nonneg (Dec (- 1) 0)"
  by (simp add: ResourceRecommendation_init_def optional_field_def)

text \<open>
  C8, amended. \<open>request\<close> and \<open>limit\<close> are optional decimal quantities of either sign:
  construction succeeds for every pair of values and stores each as it was passed.
\<close>

theorem recommendation_stores_any_decimal:
  "ResourceRecommendation_init [''request'' \<mapsto> r, ''limit'' \<mapsto> l]
     = Inr \<lparr>request = r, limit = l\<rparr>"
  by (simp add: ResourceRecommendation_init_def optional_field_def)

text \<open>
  C9 (default recommendation construction). \<open>ResourceRecommendation()\<close>, with neither
  field supplied, succeeds and yields \<open>request = None\<close> and \<open>limit = None\<close>.
\<close>

theorem recommendation_default_construction:
  "ResourceRecommendation_init Map.empty = Inr \<lparr>request = None, limit = None\<rparr>"
  by (simp add: ResourceRecommendation_init_def optional_field_def)

section \<open>Properties of the \<open>timedelta\<close> constructor\<close>

lemma round_half_even_err: "\<bar>of_int (round_half_even x) - x\<bar> \<le> 1 / 2"
proof -
  have "of_int \<lfloor>x\<rfloor> \<le> x" "x < of_int \<lfloor>x\<rfloor> + 1" by linarith+
  then show ?thesis
    by (auto simp: round_half_even_def Let_def abs_le_iff)
qed

lemma round_half_even_nonneg: "0 \<le> x \<Longrightarrow> 0 \<le> round_half_even x"
  by (auto simp: round_half_even_def Let_def)

lemma c_round_unit: "0 \<le> l \<Longrightarrow> l < 1 \<Longrightarrow> c_round l = (if l < 1 / 2 then 0 else 1)"
  unfolding c_round_def by (auto simp: floor_eq_iff)

lemma add_leftover_half: "add_leftover x (1 / 2) = (if x mod 2 = 0 then x else x + 1)"
proof -
  have m: "x mod 2 = 0 \<or> x mod 2 = 1" by presburger
  have f1: "\<lfloor>3 / 4 :: rat\<rfloor> = 0" by (rule floor_unique) simp_all
  have f2: "\<lfloor>5 / 4 :: rat\<rfloor> = 1" by (rule floor_unique) simp_all
  from m show ?thesis
    by (auto simp: add_leftover_def Let_def c_round_def f1 f2)
qed

lemma add_leftover_err:
  assumes "0 \<le> l" "l < 1"
  shows "x \<le> add_leftover x l \<and> \<bar>of_int (add_leftover x l - x) - l\<bar> \<le> 1 / 2"
proof (cases "l = 1 / 2")
  case True
  show ?thesis unfolding True add_leftover_half by simp
next
  case False
  with assms show ?thesis
    by (auto simp: add_leftover_def Let_def c_round_unit)
qed

lemma quotient_of_abs_pos:
  assumes "x \<noteq> 0" "quotient_of \<bar>x\<bar> = (a, b)"
  shows "0 < a" "0 < b" "\<bar>x\<bar> = of_int a / of_int b"
proof -
  show b: "0 < b" using assms(2) by (rule quotient_of_denom_pos)
  show v: "\<bar>x\<bar> = of_int a / of_int b" using assms(2) by (rule quotient_of_div)
  have "0 < \<bar>x\<bar>" using assms(1) by simp
  with v b show "0 < a" by (simp add: zero_less_divide_iff)
qed

lemma float_exponent_le:
  assumes "x \<noteq> 0"
  shows "2 powi (float_exponent x) \<le> \<bar>x\<bar>"
proof -
  obtain a b where q: "quotient_of \<bar>x\<bar> = (a, b)" by (cases "quotient_of \<bar>x\<bar>")
  note ab = quotient_of_abs_pos[OF assms q]
  let ?e0 = "bitlen a - bitlen b"
  show ?thesis
  proof (cases "2 powi ?e0 \<le> \<bar>x\<bar>")
    case True
    then show ?thesis by (simp add: float_exponent_def q)
  next
    case False
    have la: "(2::rat) ^ nat (bitlen a - 1) \<le> of_int a"
      using bitlen_bounds[OF ab(1)]
      by (metis of_int_le_iff of_int_numeral of_int_power)
    have lb: "of_int b < (2::rat) ^ nat (bitlen b)"
      using bitlen_bounds[OF ab(2)]
      by (metis of_int_less_iff of_int_numeral of_int_power)
    have pa: "0 < bitlen a" using ab(1) bitlen_nonneg[of a] bitlen_eq_zero_iff[of a] by linarith
    have pb: "0 < bitlen b" using ab(2) bitlen_nonneg[of b] bitlen_eq_zero_iff[of b] by linarith
    have "?e0 - 1 = (bitlen a - 1) - bitlen b" by simp
    then have "(2::rat) powi (?e0 - 1) = 2 powi (bitlen a - 1) / 2 powi (bitlen b)"
      by (simp only: power_int_diff[of "2::rat", simplified])
    also have "\<dots> = 2 ^ nat (bitlen a - 1) / 2 ^ nat (bitlen b)"
      using pa pb by (simp add: power_int_def)
    also have "\<dots> \<le> of_int a / of_int b"
      using la lb ab(1,2) by (intro frac_le) simp_all
    finally have "(2::rat) powi (?e0 - 1) \<le> \<bar>x\<bar>" using ab(3) by simp
    with False show ?thesis by (simp add: float_exponent_def q)
  qed
qed

lemma float_exponent_less:
  assumes "0 < x" "x < 2 ^ n"
  shows "float_exponent x < int n"
proof (rule ccontr)
  assume "\<not> float_exponent x < int n"
  then have "int n \<le> float_exponent x" by simp
  then have "(2::rat) powi (int n) \<le> 2 powi (float_exponent x)"
    by (intro power_int_increasing) simp_all
  also have "\<dots> \<le> \<bar>x\<bar>" using assms(1) by (intro float_exponent_le) simp
  finally show False using assms by simp
qed

lemma fl_err:
  assumes "0 < x" "x < 2 ^ 52"
  shows "0 \<le> fl x \<and> \<bar>fl x - x\<bar> \<le> 1 / 4"
proof -
  define e where "e = max (float_exponent x) (- 1022)"
  define q :: rat where "q = 2 powi (e - 52)"
  have e: "e \<le> 51" using float_exponent_less[OF assms] by (simp add: e_def)
  have qpos: "0 < q" by (simp add: q_def)
  have "q \<le> 2 powi (- 1)" unfolding q_def using e by (intro power_int_increasing) simp_all
  then have qle: "q \<le> 1 / 2" by (simp add: power_int_minus)
  have flx: "fl x = of_int (round_half_even (x / q)) * q"
    using assms(1) by (simp add: fl_def Let_def e_def q_def)
  have "0 \<le> x / q" using assms(1) qpos by simp
  then have nn: "0 \<le> fl x" using qpos round_half_even_nonneg[of "x / q"] by (simp add: flx)
  have "fl x - x = (of_int (round_half_even (x / q)) - x / q) * q"
    using qpos by (simp add: flx algebra_simps)
  then have "\<bar>fl x - x\<bar> = \<bar>of_int (round_half_even (x / q)) - x / q\<bar> * q"
    using qpos by (simp add: abs_mult)
  also have "\<dots> \<le> (1 / 2) * (1 / 2)"
    using round_half_even_err[of "x / q"] qle qpos by (intro mult_mono) simp_all
  finally show ?thesis using nn by simp
qed

lemma microseconds_to_delta_ok:
  assumes "0 \<le> us" "us < 86400000000000000000"
  shows "\<exists>td. microseconds_to_delta us = Inr td \<and> total_microseconds td = us"
proof -
  define n where "n = us div 1000000"
  define d where "d = n div 86400"
  have n: "0 \<le> n" "n < 86400000000000" using assms unfolding n_def by simp_all
  then have d: "0 \<le> d" "d \<le> 999999999" unfolding d_def by simp_all
  have "(d * 86400 + n mod 86400) * 1000000 + us mod 1000000 = us"
    unfolding d_def n_def by simp
  with d show ?thesis
    by (simp add: microseconds_to_delta_def Let_def n_def[symmetric] d_def[symmetric]
          total_microseconds_def)
qed

lemma microseconds_to_delta_overflow:
  assumes "86400000000000000000 \<le> us"
  shows "microseconds_to_delta us = Inl OverflowError"
proof -
  define n where "n = us div 1000000"
  have n: "86400000000000 \<le> n" using assms unfolding n_def by simp
  then have "1000000000 \<le> n div 86400" by simp
  then show ?thesis
    by (simp add: microseconds_to_delta_def Let_def n_def[symmetric])
qed

lemma accum_nonneg:
  assumes h: "0 \<le> h" and F: "0 < F" "F \<le> 3600000000"
  shows "\<exists>x l. accum 0 (Finite h) F = Inr (x, l) \<and> \<lfloor>h\<rfloor> * F \<le> x \<and> 0 \<le> l \<and> l < 1
           \<and> \<bar>of_int x + l - of_int F * h\<bar> \<le> 1 / 4
           \<and> (h \<in> \<int> \<longrightarrow> l = 0 \<and> of_int x = of_int F * h)"
proof -
  define ip where "ip = \<lfloor>h\<rfloor>"
  define fr where "fr = h - of_int ip"
  have tr: "trunc_rat h = ip" using h by (simp add: trunc_rat_def ip_def)
  have fr: "0 \<le> fr" "fr < 1" unfolding fr_def ip_def by linarith+
  have hsplit: "h = of_int ip + fr" by (simp add: fr_def)
  show ?thesis
  proof (cases "fr = 0")
    case True
    then have z: "h - of_int (trunc_rat h) = 0" by (simp only: fr_def tr)
    have "accum 0 (Finite h) F = Inr (trunc_rat h * F, 0)"
      unfolding accum_def Let_def pyfloat.case z by simp
    then have "accum 0 (Finite h) F = Inr (ip * F, 0)" by (simp only: tr)
    moreover have e: "(of_int (ip * F) :: rat) = of_int F * h" using True hsplit by simp
    moreover have "\<bar>(of_int (ip * F) :: rat) + 0 - of_int F * h\<bar> \<le> 1 / 4"
      unfolding e by simp
    moreover have "\<lfloor>h\<rfloor> * F \<le> ip * F" by (simp add: ip_def)
    ultimately have "accum 0 (Finite h) F = Inr (ip * F, 0) \<and> \<lfloor>h\<rfloor> * F \<le> ip * F
        \<and> (0::rat) \<le> 0 \<and> (0::rat) < 1
        \<and> \<bar>(of_int (ip * F) :: rat) + 0 - of_int F * h\<bar> \<le> 1 / 4
        \<and> (h \<in> \<int> \<longrightarrow> (0::rat) = 0 \<and> (of_int (ip * F) :: rat) = of_int F * h)"
      by (intro conjI impI) simp_all
    then show ?thesis by blast
  next
    case False
    define p where "p = of_int F * fr"
    define d where "d = fl p"
    define ip2 where "ip2 = \<lfloor>d\<rfloor>"
    define l where "l = d - of_int ip2"
    have Fr: "(0::rat) < of_int F" "(of_int F :: rat) \<le> 3600000000" using F by simp_all
    have ppos: "0 < p" using False fr Fr by (simp add: p_def)
    have "p < of_int F * 1" unfolding p_def using fr(2) Fr(1) by (intro mult_strict_left_mono)
    with Fr(2) have "p < 3600000000" by simp
    then have "p < 2 ^ 52" by simp
    with ppos have dd: "0 \<le> d" "\<bar>d - p\<bar> \<le> 1 / 4" using fl_err[of p] by (simp_all add: d_def)
    have tr2: "trunc_rat d = ip2" using dd(1) by (simp add: trunc_rat_def ip2_def)
    have l: "0 \<le> l" "l < 1" unfolding l_def ip2_def by linarith+
    have ip2: "0 \<le> ip2" using dd(1) by (simp add: ip2_def)
    have acc: "accum 0 (Finite h) F = Inr (ip * F + ip2, l)"
      unfolding accum_def Let_def pyfloat.case tr fr_def[symmetric] p_def[symmetric]
        d_def[symmetric] tr2 l_def[symmetric]
      using False by simp
    have "of_int (ip * F + ip2) + l - of_int F * h = d - p"
      by (simp add: l_def p_def hsplit algebra_simps)
    with dd(2) have err: "\<bar>of_int (ip * F + ip2) + l - of_int F * h\<bar> \<le> 1 / 4" by simp
    have notint: "h \<notin> \<int>"
    proof
      assume "h \<in> \<int>"
      then have "of_int \<lfloor>h\<rfloor> = h" by (rule Ints_cases) simp
      with False show False by (simp add: fr_def ip_def)
    qed
    have "\<lfloor>h\<rfloor> * F \<le> ip * F + ip2" using ip2 by (simp add: ip_def)
    with acc err l notint
    have "accum 0 (Finite h) F = Inr (ip * F + ip2, l) \<and> \<lfloor>h\<rfloor> * F \<le> ip * F + ip2
        \<and> 0 \<le> l \<and> l < 1
        \<and> \<bar>of_int (ip * F + ip2) + l - of_int F * h\<bar> \<le> 1 / 4
        \<and> (h \<in> \<int> \<longrightarrow> l = 0 \<and> (of_int (ip * F + ip2) :: rat) = of_int F * h)"
      by blast
    then show ?thesis by blast
  qed
qed

lemma delta_new_finite:
  assumes h1: "1 \<le> h" and F: "0 < F" "F \<le> 3600000000"
    and bound: "of_int F * h + 1 < 86400000000000000000"
  shows "\<exists>td. delta_new (Finite h) F = Inr td
           \<and> \<bar>of_int (total_microseconds td) - of_int F * h\<bar> < 1
           \<and> (h \<in> \<int> \<longrightarrow> of_int (total_microseconds td) = of_int F * h)"
proof -
  from h1 have "0 \<le> h" by simp
  from accum_nonneg[OF this F] obtain x l where
    acc: "accum 0 (Finite h) F = Inr (x, l)" and l: "0 \<le> l" "l < 1"
    and err: "\<bar>of_int x + l - of_int F * h\<bar> \<le> 1 / 4"
    and ex: "h \<in> \<int> \<longrightarrow> l = 0 \<and> of_int x = of_int F * h"
    by blast
  define us where "us = add_leftover x l"
  have lo: "\<bar>of_int (us - x) - l\<bar> \<le> 1 / 2"
    using add_leftover_err[OF l, of x] by (simp add: us_def)
  have "of_int us - of_int F * h = (of_int (us - x) - l) + (of_int x + l - of_int F * h)"
    by simp
  with lo err have close: "\<bar>of_int us - of_int F * h\<bar> < 1" by linarith
  have "(1::rat) \<le> of_int F" using F(1) by (simp add: int_one_le_iff_zero_less)
  then have "1 * 1 \<le> of_int F * h" using h1 by (intro mult_mono) simp_all
  with close have "(0::rat) < of_int us" by linarith
  then have us0: "0 \<le> us" by simp
  from close bound have "(of_int us :: rat) < 86400000000000000000" by linarith
  then have "(of_int us :: rat) < of_int 86400000000000000000" by simp
  then have us1: "us < 86400000000000000000" by (simp only: of_int_less_iff)
  from microseconds_to_delta_ok[OF us0 us1] obtain td where
    td: "microseconds_to_delta us = Inr td" "total_microseconds td = us" by blast
  have dn: "delta_new (Finite h) F = Inr td"
    by (simp add: delta_new_def acc us_def[symmetric] td(1))
  have "h \<in> \<int> \<longrightarrow> of_int us = of_int F * h"
  proof
    assume "h \<in> \<int>"
    with ex have "l = 0" "of_int x = of_int F * h" by simp_all
    then show "of_int us = of_int F * h" by (simp add: us_def add_leftover_def)
  qed
  with dn close td(2) show ?thesis by simp
qed

lemma delta_new_overflow:
  assumes h: "0 \<le> h" and F: "0 < F" "F \<le> 3600000000"
    and big: "86400000000000000000 \<le> \<lfloor>h\<rfloor> * F"
  shows "delta_new (Finite h) F = Inl OverflowError"
proof -
  from accum_nonneg[OF h F] obtain x l where
    acc: "accum 0 (Finite h) F = Inr (x, l)" and l: "0 \<le> l" "l < 1"
    and x: "\<lfloor>h\<rfloor> * F \<le> x"
    by blast
  have "x \<le> add_leftover x l" using add_leftover_err[OF l, of x] by simp
  with x big have "86400000000000000000 \<le> add_leftover x l" by linarith
  then have "microseconds_to_delta (add_leftover x l) = Inl OverflowError"
    by (rule microseconds_to_delta_overflow)
  then show ?thesis by (simp add: delta_new_def acc)
qed

section \<open>The derived time intervals\<close>

lemma init_fields_ge_1:
  "StrategySettings_init kwargs = Inr s \<Longrightarrow>
   float_ge (history_duration s) (Finite 1) \<and> float_ge (timeframe_duration s) (Finite 1)"
  by (auto simp: StrategySettings_init_def float_field_cases split: option.splits if_splits)

lemma delta_new_inf: "delta_new PosInf F = Inl OverflowError"
  by (simp add: delta_new_def accum_def)

text \<open>
  C6 (derived time intervals), amended. For every successfully constructed
  \<open>StrategySettings\<close>: when \<open>history_duration\<close> is a finite number of at most
  23999999999 hours, \<open>history_timedelta\<close> returns a duration that differs from
  \<open>history_duration\<close> hours by less than one microsecond, and is exactly
  \<open>history_duration\<close> hours when that is a whole number (168 gives 168 hours); the same
  holds for \<open>timeframe_timedelta\<close> and a \<open>timeframe_duration\<close> of at most 1439999999999
  minutes. When \<open>history_duration\<close> is infinite or at least 24000000000 hours
  (\<open>timeframe_duration\<close> infinite or at least 1440000000000 minutes), the accessor raises
  \<open>OverflowError\<close>. Both accessors are functions of the stored field alone.
\<close>

theorem timedelta_accessors:
  assumes ok: "StrategySettings_init kwargs = Inr s"
  shows "(history_duration s = Finite h \<and> h \<le> 23999999999 \<longrightarrow>
           (\<exists>td. history_timedelta s = Inr td
                \<and> \<bar>of_int (total_microseconds td) - 3600000000 * h\<bar> < 1
                \<and> (h \<in> \<int> \<longrightarrow> of_int (total_microseconds td) = 3600000000 * h)))
       \<and> (timeframe_duration s = Finite m \<and> m \<le> 1439999999999 \<longrightarrow>
           (\<exists>td. timeframe_timedelta s = Inr td
                \<and> \<bar>of_int (total_microseconds td) - 60000000 * m\<bar> < 1
                \<and> (m \<in> \<int> \<longrightarrow> of_int (total_microseconds td) = 60000000 * m)))
       \<and> (history_duration s = PosInf \<or> history_duration s = Finite h \<and> 24000000000 \<le> h
           \<longrightarrow> history_timedelta s = Inl OverflowError)
       \<and> (timeframe_duration s = PosInf \<or> timeframe_duration s = Finite m \<and> 1440000000000 \<le> m
           \<longrightarrow> timeframe_timedelta s = Inl OverflowError)"
proof -
  note ge = init_fields_ge_1[OF ok]
  have a: "history_duration s = Finite h \<and> h \<le> 23999999999 \<longrightarrow>
           (\<exists>td. history_timedelta s = Inr td
                \<and> \<bar>of_int (total_microseconds td) - 3600000000 * h\<bar> < 1
                \<and> (h \<in> \<int> \<longrightarrow> of_int (total_microseconds td) = 3600000000 * h))"
  proof
    assume hh: "history_duration s = Finite h \<and> h \<le> 23999999999"
    with ge have h1: "1 \<le> h" by simp
    from hh have "of_int 3600000000 * h + 1 < 86400000000000000000" by simp
    from delta_new_finite[OF h1 _ _ this] hh
    show "\<exists>td. history_timedelta s = Inr td
                \<and> \<bar>of_int (total_microseconds td) - 3600000000 * h\<bar> < 1
                \<and> (h \<in> \<int> \<longrightarrow> of_int (total_microseconds td) = 3600000000 * h)"
      by (simp add: history_timedelta_def us_per_hour_def)
  qed
  have b: "timeframe_duration s = Finite m \<and> m \<le> 1439999999999 \<longrightarrow>
           (\<exists>td. timeframe_timedelta s = Inr td
                \<and> \<bar>of_int (total_microseconds td) - 60000000 * m\<bar> < 1
                \<and> (m \<in> \<int> \<longrightarrow> of_int (total_microseconds td) = 60000000 * m))"
  proof
    assume mm: "timeframe_duration s = Finite m \<and> m \<le> 1439999999999"
    with ge have m1: "1 \<le> m" by simp
    from mm have "of_int 60000000 * m + 1 < 86400000000000000000" by simp
    from delta_new_finite[OF m1 _ _ this] mm
    show "\<exists>td. timeframe_timedelta s = Inr td
                \<and> \<bar>of_int (total_microseconds td) - 60000000 * m\<bar> < 1
                \<and> (m \<in> \<int> \<longrightarrow> of_int (total_microseconds td) = 60000000 * m)"
      by (simp add: timeframe_timedelta_def us_per_minute_def)
  qed
  have c: "history_duration s = PosInf \<or> history_duration s = Finite h \<and> 24000000000 \<le> h
           \<longrightarrow> history_timedelta s = Inl OverflowError"
  proof
    assume "history_duration s = PosInf \<or> history_duration s = Finite h \<and> 24000000000 \<le> h"
    then show "history_timedelta s = Inl OverflowError"
    proof
      assume "history_duration s = PosInf"
      then show ?thesis by (simp add: history_timedelta_def delta_new_inf)
    next
      assume hh: "history_duration s = Finite h \<and> 24000000000 \<le> h"
      then have "24000000000 \<le> \<lfloor>h\<rfloor>" by (simp add: le_floor_iff)
      then have big: "86400000000000000000 \<le> \<lfloor>h\<rfloor> * 3600000000" by simp
      from hh have "0 \<le> h" by simp
      from delta_new_overflow[OF this _ _ big] hh show ?thesis
        by (simp add: history_timedelta_def us_per_hour_def)
    qed
  qed
  have d: "timeframe_duration s = PosInf \<or> timeframe_duration s = Finite m \<and> 1440000000000 \<le> m
           \<longrightarrow> timeframe_timedelta s = Inl OverflowError"
  proof
    assume "timeframe_duration s = PosInf \<or> timeframe_duration s = Finite m \<and> 1440000000000 \<le> m"
    then show "timeframe_timedelta s = Inl OverflowError"
    proof
      assume "timeframe_duration s = PosInf"
      then show ?thesis by (simp add: timeframe_timedelta_def delta_new_inf)
    next
      assume mm: "timeframe_duration s = Finite m \<and> 1440000000000 \<le> m"
      then have "1440000000000 \<le> \<lfloor>m\<rfloor>" by (simp add: le_floor_iff)
      then have big: "86400000000000000000 \<le> \<lfloor>m\<rfloor> * 60000000" by simp
      from mm have "0 \<le> m" by simp
      from delta_new_overflow[OF this _ _ big] mm show ?thesis
        by (simp add: timeframe_timedelta_def us_per_minute_def)
    qed
  qed
  from a b c d show ?thesis by blast
qed

lemma init_168_15:
  "StrategySettings_init [''history_duration'' \<mapsto> Finite 168, ''timeframe_duration'' \<mapsto> Finite 15]
     = Inr \<lparr>history_duration = Finite 168, timeframe_duration = Finite 15\<rparr>"
  by (simp add: StrategySettings_init_def float_field_def)

theorem timedelta_accessors_witness:
  "StrategySettings_init [''history_duration'' \<mapsto> Finite 168, ''timeframe_duration'' \<mapsto> Finite 15]
     = Inr \<lparr>history_duration = Finite 168, timeframe_duration = Finite 15\<rparr>
   \<and> (168 :: rat) \<le> 23999999999 \<and> (168 :: rat) \<in> \<int>
   \<and> (\<exists>td. history_timedelta \<lparr>history_duration = Finite 168, timeframe_duration = Finite 15\<rparr> = Inr td
           \<and> total_microseconds td = 3600000000 * 168)
   \<and> history_timedelta \<lparr>history_duration = Finite 168, timeframe_duration = Finite 15\<rparr>
       = Inr \<lparr>days = 7, seconds = 0, microseconds = 0\<rparr>"
proof -
  have i: "(168 :: rat) \<in> \<int>" by simp
  from timedelta_accessors[OF init_168_15, of 168] i
  obtain td where td: "history_timedelta \<lparr>history_duration = Finite 168, timeframe_duration = Finite 15\<rparr> = Inr td"
     "(of_int (total_microseconds td) :: rat) = 3600000000 * 168"
    by auto
  from td(2) have "(of_int (total_microseconds td) :: rat) = of_int (3600000000 * 168)" by simp
  then have t: "total_microseconds td = 3600000000 * 168" by (simp only: of_int_eq_iff)
  have v: "history_timedelta \<lparr>history_duration = Finite 168, timeframe_duration = Finite 15\<rparr>
       = Inr \<lparr>days = 7, seconds = 0, microseconds = 0\<rparr>"
    by code_simp
  from td(1) t v i init_168_15 show ?thesis by auto
qed

text \<open>
  C6, as stated, fails. A \<open>history_duration\<close> of \<open>1e11\<close> hours and an infinite
  \<open>timeframe_duration\<close> pass validation, and the accessor raises \<open>OverflowError\<close>. A
  \<open>history_duration\<close> of \<open>1 + 2 ** -40\<close> hours gives the duration of one hour, which is
  not that many hours exactly.
\<close>

theorem timedelta_accessor_fails:
  "StrategySettings_init [''history_duration'' \<mapsto> Finite 100000000000]
     = Inr \<lparr>history_duration = Finite 100000000000, timeframe_duration = Finite 15\<rparr>
   \<and> history_timedelta \<lparr>history_duration = Finite 100000000000, timeframe_duration = Finite 15\<rparr>
       = Inl OverflowError
   \<and> StrategySettings_init [''timeframe_duration'' \<mapsto> PosInf]
     = Inr \<lparr>history_duration = Finite 336, timeframe_duration = PosInf\<rparr>
   \<and> timeframe_timedelta \<lparr>history_duration = Finite 336, timeframe_duration = PosInf\<rparr>
       = Inl OverflowError
   \<and> StrategySettings_init [''history_duration'' \<mapsto> Finite (1 + 1 / 2 ^ 40)]
     = Inr \<lparr>history_duration = Finite (1 + 1 / 2 ^ 40), timeframe_duration = Finite 15\<rparr>
   \<and> history_timedelta \<lparr>history_duration = Finite (1 + 1 / 2 ^ 40), timeframe_duration = Finite 15\<rparr>
       = Inr \<lparr>days = 0, seconds = 3600, microseconds = 0\<rparr>
   \<and> (of_int (total_microseconds \<lparr>days = 0, seconds = 3600, microseconds = 0\<rparr>) :: rat)
       \<noteq> 3600000000 * (1 + 1 / 2 ^ 40)"
proof -
  have a: "StrategySettings_init [''history_duration'' \<mapsto> Finite 100000000000]
     = Inr \<lparr>history_duration = Finite 100000000000, timeframe_duration = Finite 15\<rparr>"
    by (simp add: StrategySettings_init_def float_field_def)
  have b: "history_timedelta \<lparr>history_duration = Finite 100000000000, timeframe_duration = Finite 15\<rparr>
       = Inl OverflowError"
    by code_simp
  have c: "StrategySettings_init [''timeframe_duration'' \<mapsto> PosInf]
     = Inr \<lparr>history_duration = Finite 336, timeframe_duration = PosInf\<rparr>"
    by (simp add: StrategySettings_init_def float_field_def)
  have d: "timeframe_timedelta \<lparr>history_duration = Finite 336, timeframe_duration = PosInf\<rparr>
       = Inl OverflowError"
    by code_simp
  have e: "StrategySettings_init [''history_duration'' \<mapsto> Finite (1 + 1 / 2 ^ 40)]
     = Inr \<lparr>history_duration = Finite (1 + 1 / 2 ^ 40), timeframe_duration = Finite 15\<rparr>"
    by (simp add: StrategySettings_init_def float_field_def)
  have f: "history_timedelta \<lparr>history_duration = Finite (1 + 1 / 2 ^ 40), timeframe_duration = Finite 15\<rparr>
       = Inr \<lparr>days = 0, seconds = 3600, microseconds = 0\<rparr>"
    by code_simp
  have g: "(of_int (total_microseconds \<lparr>days = 0, seconds = 3600, microseconds = 0\<rparr>) :: rat)
       \<noteq> 3600000000 * (1 + 1 / 2 ^ 40)"
    by (simp add: total_microseconds_def)
  from a b c d e f g show ?thesis by blast
qed

end
